theory Spec2Isabelle
  imports Complex_Main "HOL-Library.Sublist"
begin

section \<open>Stop-time quality gate (hooks/stop\_quality\_gate.py)\<close>

text \<open>
  The hook is a Python script. Its functions are embedded one by one, under their own
  names. A Python \<open>str\<close> is a \<open>string\<close>; every \<open>char\<close> stands for one code point
  below 256. An exception is a value of type \<open>exn\<close>, and a computation that may raise
  returns \<open>exn + 'a\<close> with \<open>Inl\<close> for the exception.
\<close>

subsection \<open>Python strings\<close>

text \<open>\<open>str.isspace\<close> on the code points below 256.\<close>

definition isspace :: "char \<Rightarrow> bool" where
  "isspace c \<longleftrightarrow> c \<in> set [CHR 0x09, CHR 0x0A, CHR 0x0B, CHR 0x0C, CHR 0x0D,
     CHR 0x1C, CHR 0x1D, CHR 0x1E, CHR 0x1F, CHR 0x20, CHR 0x85, CHR 0xA0]"

text \<open>\<open>str.strip()\<close>: leading and trailing whitespace removed.\<close>

definition strip :: "string \<Rightarrow> string" where
  "strip s = rev (dropWhile isspace (rev (dropWhile isspace s)))"

text \<open>The line boundaries of \<open>str.splitlines()\<close> below 256.\<close>

definition is_linebreak :: "char \<Rightarrow> bool" where
  "is_linebreak c \<longleftrightarrow> c \<in> set [CHR 0x0A, CHR 0x0B, CHR 0x0C, CHR 0x0D,
     CHR 0x1C, CHR 0x1D, CHR 0x1E, CHR 0x85]"

text \<open>
  \<open>str.splitlines()\<close>: the first argument is the line read so far, reversed. A carriage
  return followed by a line feed is one boundary, and a final boundary opens no empty line.
\<close>

fun splitlines_from :: "string \<Rightarrow> string \<Rightarrow> string list" where
  "splitlines_from cur [] = (if cur = [] then [] else [rev cur])"
| "splitlines_from cur [c] =
     (if is_linebreak c then [rev cur] else [rev (c # cur)])"
| "splitlines_from cur (c # d # cs) =
     (if c = CHR 0x0D \<and> d = CHR 0x0A then rev cur # splitlines_from [] cs
      else if is_linebreak c then rev cur # splitlines_from [] (d # cs)
      else splitlines_from (c # cur) (d # cs))"

definition splitlines :: "string \<Rightarrow> string list" where
  "splitlines s = splitlines_from [] s"

text \<open>\<open>s.replace("\\", "/")\<close>: both arguments are one character long.\<close>

definition replace_backslash :: "string \<Rightarrow> string" where
  "replace_backslash s = map (\<lambda>c. if c = CHR 0x5C then CHR ''/'' else c) s"

text \<open>\<open>s.startswith(prefixes)\<close> with a tuple of prefixes.\<close>

definition startswith :: "string \<Rightarrow> string list \<Rightarrow> bool" where
  "startswith s ps = list_ex (\<lambda>p. prefix p s) ps"

subsection \<open>Exceptions, JSON values and the environment\<close>

datatype exn =
  TimeoutExpired
  | OSError
  | UnicodeDecodeError
  | JSONDecodeError
  | AttributeError
  | TypeError

text \<open>
  The value \<open>json.loads\<close> returns. An object is the dictionary already built, as a list
  of its items.
\<close>

datatype json =
  JNull
  | JBool bool
  | JInt int
  | JFloat real
  | JStr string
  | JArr "json list"
  | JObj "(string \<times> json) list"

text \<open>\<open>subprocess.CompletedProcess\<close>, with \<open>text=True\<close>.\<close>

record completed_process =
  returncode :: int
  stdout :: string
  stderr :: string

text \<open>
  What the script reads from outside itself:
  \<^item> \<open>path_exists p\<close> is \<open>(project_dir / p).exists()\<close>;
  \<^item> \<open>package_json\<close> is the outcome of
    \<open>json.loads(pkg.read_text(encoding="utf-8"))\<close>, an exception or the value;
  \<^item> \<open>subprocess_run cmd timeout\<close> is the outcome of \<open>subprocess.run\<close> on \<open>cmd\<close> in
    the project directory: an exception (\<open>TimeoutExpired\<close>, \<open>OSError\<close> when the
    program cannot be started, \<open>UnicodeDecodeError\<close> when its output is not text) or
    the completed process.
  The script runs no command twice, so the outcome is a function of the command. The
  files of the project are taken not to change while the script runs, so each of these
  reads the same at every call.

  An environment describes a run in which the probes of the file system return:
  \<open>os.getcwd()\<close> on line 43 gives a directory and every \<open>Path.exists()\<close> gives a
  truth value. Both can raise (a removed working directory, a path the process may not
  inspect), nothing in the script catches that either, and such a run has no
  environment here. The theorems below therefore say what the script does with the
  exceptions of its subprocesses and of loading \<open>package.json\<close>, and none of them
  says that these are the only exceptions a run can end with.
\<close>

record env =
  path_exists :: "string \<Rightarrow> bool"
  package_json :: "exn + json"
  subprocess_run :: "string list \<Rightarrow> nat \<Rightarrow> exn + completed_process"

text \<open>
  What the script does to the outside: the subprocesses it has started, with their
  timeouts, in order, and the text it has printed on standard error.
\<close>

record state =
  invoked :: "(string list \<times> nat) list"
  stderr_text :: string

type_synonym 'a exec = "state \<Rightarrow> (exn + 'a) \<times> state"

definition return_exec :: "'a \<Rightarrow> 'a exec" where
  "return_exec x = (\<lambda>s. (Inr x, s))"

definition bind_exec :: "'a exec \<Rightarrow> ('a \<Rightarrow> 'b exec) \<Rightarrow> 'b exec" where
  "bind_exec m f = (\<lambda>s. case m s of (Inl e, s') \<Rightarrow> (Inl e, s') | (Inr x, s') \<Rightarrow> f x s')"

text \<open>\<open>print(line, file=sys.stderr)\<close>.\<close>

definition print_stderr :: "string \<Rightarrow> unit exec" where
  "print_stderr line =
     (\<lambda>s. (Inr (), s\<lparr>stderr_text := stderr_text s @ line @ ''\<newline>''\<rparr>))"

subsection \<open>The functions of the script\<close>

definition TEST_RELEVANT_PREFIXES :: "string list" where
  "TEST_RELEVANT_PREFIXES = [''src/'', ''app/'', ''pages/'', ''server/'', ''api/'', ''prisma/'']"

text \<open>\<open>run(cmd, cwd, timeout)\<close>; \<open>cwd\<close> is the project directory at every call.\<close>

definition run :: "env \<Rightarrow> string list \<Rightarrow> nat \<Rightarrow> completed_process exec" where
  "run e cmd timeout =
     (\<lambda>s. (subprocess_run e cmd timeout, s\<lparr>invoked := invoked s @ [(cmd, timeout)]\<rparr>))"

definition detect_pm :: "env \<Rightarrow> string list" where
  "detect_pm e =
     (if path_exists e ''pnpm-lock.yaml'' then [''pnpm'']
      else if path_exists e ''yarn.lock'' then [''yarn'']
      else if path_exists e ''bun.lockb'' then [''bun'']
      else [''npm''])"

text \<open>
  Python's truth value of a JSON value. (\<open>json.loads\<close> also accepts \<open>NaN\<close> and
  \<open>Infinity\<close>, which are true like every other nonzero number.)
\<close>

fun truthy :: "json \<Rightarrow> bool" where
  "truthy JNull = False"
| "truthy (JBool b) = b"
| "truthy (JInt i) = (i \<noteq> 0)"
| "truthy (JFloat r) = (r \<noteq> 0)"
| "truthy (JStr s) = (s \<noteq> [])"
| "truthy (JArr xs) = (xs \<noteq> [])"
| "truthy (JObj kvs) = (kvs \<noteq> [])"

text \<open>\<open>data.get("scripts") or {}\<close>: only a dictionary has \<open>get\<close>.\<close>

fun get_scripts :: "json \<Rightarrow> exn + json" where
  "get_scripts (JObj kvs) =
     (case map_of kvs ''scripts'' of
        None \<Rightarrow> Inr (JObj [])
      | Some v \<Rightarrow> Inr (if truthy v then v else JObj []))"
| "get_scripts _ = Inl AttributeError"

text \<open>
  \<open>script in scripts\<close>: a key of a dictionary, an element of a list, a substring of a
  string; the other values are not containers.
\<close>

fun contains :: "json \<Rightarrow> string \<Rightarrow> exn + bool" where
  "contains (JObj kvs) k = Inr (k \<in> set (map fst kvs))"
| "contains (JArr xs) k = Inr (JStr k \<in> set xs)"
| "contains (JStr t) k = Inr (sublist k t)"
| "contains _ k = Inl TypeError"

text \<open>The body of the \<open>try\<close> block of \<open>has_script\<close>.\<close>

definition has_script_try :: "env \<Rightarrow> string \<Rightarrow> exn + bool" where
  "has_script_try e script =
     (case package_json e of
        Inl x \<Rightarrow> Inl x
      | Inr data \<Rightarrow>
          (case get_scripts data of
             Inl x \<Rightarrow> Inl x
           | Inr scripts \<Rightarrow> contains scripts script))"

definition has_script :: "env \<Rightarrow> string \<Rightarrow> bool" where
  "has_script e script =
     (if \<not> path_exists e ''package.json'' then False
      else case has_script_try e script of Inl x \<Rightarrow> False | Inr b \<Rightarrow> b)"

text \<open>
  The four places that record a failed stage share one shape: the label when the exit
  status is not zero, then the stripped error stream cut to 2000 characters when it is
  not empty.
\<close>

definition record_failure :: "string \<Rightarrow> completed_process \<Rightarrow> string list \<Rightarrow> string list" where
  "record_failure label r errors =
     (if returncode r \<noteq> 0 then
        (if strip (stderr r) \<noteq> [] then errors @ [label] @ [take 2000 (strip (stderr r))]
         else errors @ [label])
      else errors)"

text \<open>Lines 65 to 80: the lint stage.\<close>

definition lint_stage :: "env \<Rightarrow> string \<Rightarrow> string list \<Rightarrow> string list exec" where
  "lint_stage e pm_cmd errors =
     (if has_script e ''lint'' then
        bind_exec (run e [pm_cmd, ''run'', ''lint''] 900)
          (\<lambda>r. return_exec (record_failure ''lint failed'' r errors))
      else if path_exists e ''node_modules/.bin/eslint'' then
        bind_exec (run e [''npx'', ''eslint'', ''.''] 900)
          (\<lambda>r. return_exec (record_failure ''eslint failed'' r errors))
      else return_exec errors)"

text \<open>Lines 82 to 90: the typecheck stage.\<close>

definition typecheck_stage :: "env \<Rightarrow> string \<Rightarrow> string list \<Rightarrow> string list exec" where
  "typecheck_stage e pm_cmd errors =
     bind_exec
       (if has_script e ''typecheck'' then run e [pm_cmd, ''run'', ''typecheck''] 900
        else run e [''npx'', ''tsc'', ''--noEmit''] 900)
       (\<lambda>r. return_exec (record_failure ''typecheck failed'' r errors))"

text \<open>Lines 92 to 99: the test stage.\<close>

definition should_test :: "string list \<Rightarrow> bool" where
  "should_test changed = list_ex (\<lambda>p. startswith p TEST_RELEVANT_PREFIXES) changed"

definition test_stage :: "env \<Rightarrow> string \<Rightarrow> string list \<Rightarrow> string list \<Rightarrow> string list exec" where
  "test_stage e pm_cmd changed errors =
     (if should_test changed \<and> has_script e ''test'' then
        bind_exec (run e [pm_cmd, ''test''] 900)
          (\<lambda>r. return_exec (record_failure ''tests failed'' r errors))
      else return_exec errors)"

text \<open>Lines 101 to 109: the report and the exit status.\<close>

fun print_errors :: "string list \<Rightarrow> unit exec" where
  "print_errors [] = return_exec ()"
| "print_errors (x # xs) = bind_exec (print_stderr (''- '' @ x)) (\<lambda>_. print_errors xs)"

definition aggregate :: "string list \<Rightarrow> int exec" where
  "aggregate errors =
     (if errors \<noteq> [] then
        bind_exec (print_stderr ''QUALITY GATE BLOCKED STOP:'')
          (\<lambda>_. bind_exec (print_errors errors)
            (\<lambda>_. bind_exec (print_stderr ''\<newline>Fix the failures, then continue.'')
              (\<lambda>_. return_exec 2)))
      else return_exec 0)"

text \<open>Line 55: the changed files, from the output of \<open>git diff --name-only\<close>.\<close>

definition changed_files :: "string \<Rightarrow> string list" where
  "changed_files out =
     map (\<lambda>line. replace_backslash (strip line))
       (filter (\<lambda>line. strip line \<noteq> []) (splitlines out))"

text \<open>
  \<open>main\<close>, lines 46 to 109. Line 43 only fixes the project directory, from
  \<open>CLAUDE_PROJECT_DIR\<close> or the working directory; it is the directory the environment
  describes.
\<close>

definition main :: "env \<Rightarrow> int exec" where
  "main e =
     (if \<not> path_exists e ''package.json'' then return_exec 0
      else if \<not> path_exists e ''.git'' then return_exec 0
      else
        bind_exec (run e [''git'', ''diff'', ''--name-only''] 30)
          (\<lambda>diff.
             let changed = changed_files (stdout diff) in
             if changed = [] then return_exec 0
             else
               let pm_cmd = hd (detect_pm e) in
               bind_exec (lint_stage e pm_cmd [])
                 (\<lambda>errors. bind_exec (typecheck_stage e pm_cmd errors)
                   (\<lambda>errors. bind_exec (test_stage e pm_cmd changed errors)
                     (\<lambda>errors. aggregate errors)))))"

text \<open>
  \<open>raise SystemExit(main())\<close> in a fresh process: \<open>Inr code\<close> is the exit status the
  script chose, \<open>Inl x\<close> is an exception that nothing caught (the interpreter then
  prints a traceback and exits with status 1).
\<close>

definition initial :: state where
  "initial = \<lparr>invoked = [], stderr_text = []\<rparr>"

definition script :: "env \<Rightarrow> (exn + int) \<times> state" where
  "script e = main e initial"

section \<open>The pipeline as a list of stages\<close>

text \<open>
  For the proofs, the three stages are read as one list of stage descriptors, a command
  and its failure label each, run in order; \<open>stages_plan\<close> below shows that \<open>main\<close>
  does exactly this.
\<close>

fun run_stages :: "env \<Rightarrow> (string list \<times> string) list \<Rightarrow> string list \<Rightarrow> string list exec" where
  "run_stages e [] errors = return_exec errors"
| "run_stages e ((cmd, label) # rest) errors =
     bind_exec (run e cmd 900) (\<lambda>r. run_stages e rest (record_failure label r errors))"

definition lint_plan :: "env \<Rightarrow> string \<Rightarrow> (string list \<times> string) list" where
  "lint_plan e pm_cmd =
     (if has_script e ''lint'' then [([pm_cmd, ''run'', ''lint''], ''lint failed'')]
      else if path_exists e ''node_modules/.bin/eslint''
        then [([''npx'', ''eslint'', ''.''], ''eslint failed'')]
      else [])"

definition typecheck_plan :: "env \<Rightarrow> string \<Rightarrow> (string list \<times> string) list" where
  "typecheck_plan e pm_cmd =
     (if has_script e ''typecheck'' then [([pm_cmd, ''run'', ''typecheck''], ''typecheck failed'')]
      else [([''npx'', ''tsc'', ''--noEmit''], ''typecheck failed'')])"

definition test_plan :: "env \<Rightarrow> string \<Rightarrow> string list \<Rightarrow> (string list \<times> string) list" where
  "test_plan e pm_cmd changed =
     (if should_test changed \<and> has_script e ''test'' then [([pm_cmd, ''test''], ''tests failed'')]
      else [])"

definition plan :: "env \<Rightarrow> string list \<Rightarrow> (string list \<times> string) list" where
  "plan e changed =
     lint_plan e (hd (detect_pm e)) @ typecheck_plan e (hd (detect_pm e)) @
     test_plan e (hd (detect_pm e)) changed"

definition returns :: "env \<Rightarrow> string list \<Rightarrow> nat \<Rightarrow> bool" where
  "returns e cmd t \<longleftrightarrow> (\<exists>r. subprocess_run e cmd t = Inr r)"

definition at900 :: "(string list \<times> string) list \<Rightarrow> (string list \<times> nat) list" where
  "at900 sts = map (\<lambda>st. (fst st, 900)) sts"

definition failure_of :: "env \<Rightarrow> string list \<times> string \<Rightarrow> string list" where
  "failure_of e st =
     (case subprocess_run e (fst st) 900 of
        Inl x \<Rightarrow> []
      | Inr r \<Rightarrow> record_failure (snd st) r [])"

definition report :: "string list \<Rightarrow> string" where
  "report errors =
     (if errors = [] then []
      else ''QUALITY GATE BLOCKED STOP:\<newline>'' @ concat (map (\<lambda>x. ''- '' @ x @ ''\<newline>'') errors)
        @ ''\<newline>Fix the failures, then continue.\<newline>'')"

section \<open>The report as the specification words it\<close>








section \<open>Environments used as concrete inputs\<close>

text \<open>
  \<open>project files manifest procs\<close> is a project directory holding \<open>files\<close>, whose
  \<open>package.json\<close> loads as \<open>manifest\<close>, and where the commands listed in \<open>procs\<close>
  end as listed and every other command exits with status 0 and prints nothing.
\<close>

definition project ::
  "string list \<Rightarrow> exn + json \<Rightarrow> (string list \<times> (exn + completed_process)) list \<Rightarrow> env" where
  "project files manifest procs =
     \<lparr>path_exists = (\<lambda>p. p \<in> set files),
      package_json = manifest,
      subprocess_run = (\<lambda>cmd t.
        case map_of procs cmd of
          Some outcome \<Rightarrow> outcome
        | None \<Rightarrow> Inr \<lparr>returncode = 0, stdout = [], stderr = []\<rparr>)\<rparr>"

definition exits :: "int \<Rightarrow> string \<Rightarrow> string \<Rightarrow> exn + completed_process" where
  "exits rc out err = Inr \<lparr>returncode = rc, stdout = out, stderr = err\<rparr>"

definition with_scripts :: "string list \<Rightarrow> exn + json" where
  "with_scripts names =
     Inr (JObj [(''name'', JStr ''roomshare''),
                (''scripts'', JObj (map (\<lambda>n. (n, JStr ''node tool.js'')) names))])"

definition git_diff :: "string list" where
  "git_diff = [''git'', ''diff'', ''--name-only'']"

text \<open>A project with two lockfiles, \<open>yarn.lock\<close> and \<open>bun.lockb\<close>.\<close>

definition yarn_and_bun :: env where
  "yarn_and_bun = project [''yarn.lock'', ''bun.lockb''] (Inl OSError) []"

text \<open>A lint script is declared and its subprocess exceeds the timeout.\<close>

definition lint_times_out :: env where
  "lint_times_out =
     project [''package.json'', ''.git''] (with_scripts [''lint''])
       [(git_diff, exits 0 ''src/app.ts\<newline>'' []),
        ([''npm'', ''run'', ''lint''], Inl TimeoutExpired)]"

text \<open>No subprocess can be started: neither \<open>git\<close> nor any tool is installed.\<close>

definition nothing_starts :: env where
  "nothing_starts =
     \<lparr>path_exists = (\<lambda>p. p \<in> set [''package.json'', ''.git'']),
      package_json = with_scripts [],
      subprocess_run = (\<lambda>cmd t. Inl OSError)\<rparr>"

text \<open>
  No typecheck script, no \<open>node_modules\<close> at all: \<open>npx tsc\<close> finds no type checker
  and exits with status 1.
\<close>

definition no_typechecker :: env where
  "no_typechecker =
     project [''package.json'', ''.git''] (with_scripts [])
       [(git_diff, exits 0 ''README.md\<newline>'' []),
        ([''npx'', ''tsc'', ''--noEmit''], exits 1 [] ''tsc: not found\<newline>'')]"

text \<open>A test script is declared, a core file changed, and the type checker times out.\<close>

definition tsc_times_out :: env where
  "tsc_times_out =
     project [''package.json'', ''.git''] (with_scripts [''test''])
       [(git_diff, exits 0 ''src/api/handler.ts\<newline>'' []),
        ([''npx'', ''tsc'', ''--noEmit''], Inl TimeoutExpired)]"







text \<open>A project whose \<open>package.json\<close> is not valid JSON; eslint is installed.\<close>

definition broken_manifest :: env where
  "broken_manifest =
     project [''package.json'', ''.git'', ''node_modules/.bin/eslint''] (Inl JSONDecodeError)
       [(git_diff, exits 0 ''src/app.ts\<newline>'' [])]"

section \<open>Command Guard\<close>

text \<open>
  The hook that guards shell commands is not among the sources: only the quality gate
  is. The guard is therefore modelled from sections 3 and 4.1 of the specification.
  The specification gives neither the text of a pattern nor of a message, so the two
  rule lists are parameters of the guard.
\<close>

text \<open>
  Modelled from the spec: case folding for "case-insensitive" matching; the guard's
  source is missing. Only the letters A to Z are folded.
\<close>

definition lower_char :: "char \<Rightarrow> char" where
  "lower_char c =
     (case map_of (zip ''ABCDEFGHIJKLMNOPQRSTUVWXYZ'' ''abcdefghijklmnopqrstuvwxyz'') c of
        Some d \<Rightarrow> d
      | None \<Rightarrow> c)"

definition lower :: "string \<Rightarrow> string" where
  "lower s = map lower_char s"

text \<open>
  Modelled from the spec: a Rule is a "(pattern, message) pair"; the guard's source and
  its pattern table are missing. No pattern syntax is specified, so a pattern is the
  recogniser of the case-folded texts it accepts.
\<close>

type_synonym pattern = "string \<Rightarrow> bool"

record rule =
  pattern :: pattern
  message :: string

text \<open>
  Modelled from the spec: the Decision, "allowed: bool, diagnostics: ordered sequence
  of string"; the guard's source is missing.
\<close>

record decision =
  allowed :: bool
  diagnostics :: "string list"

text \<open>
  Modelled from the spec: a pattern "matches anywhere in the string
  (case-insensitive)": some contiguous part of the case-folded command is accepted.
  The guard's source is missing.
\<close>

definition matches :: "pattern \<Rightarrow> string \<Rightarrow> bool" where
  "matches p cmd = list_ex p (sublists (lower cmd))"

text \<open>
  Modelled from the spec: "return the list of all rule messages whose pattern matches",
  in the order of the rule list; the guard's source is missing.
\<close>

definition violations :: "rule list \<Rightarrow> string \<Rightarrow> string list" where
  "violations rules cmd = map message (filter (\<lambda>r. matches (pattern r) cmd) rules)"

text \<open>
  Modelled from the spec: the Command Guard on a command string; its source is missing.
  An empty or whitespace-only command is a no-op (allowed, no diagnostics); otherwise
  the hard-block rules and then the secret-access rules are evaluated, and the action
  is blocked if and only if the list of messages is not empty.
\<close>

definition command_guard :: "rule list \<Rightarrow> rule list \<Rightarrow> string \<Rightarrow> decision" where
  "command_guard hard_block secret_access cmd =
     (if strip cmd = [] then \<lparr>allowed = True, diagnostics = []\<rparr>
      else \<lparr>allowed = (violations (hard_block @ secret_access) cmd = []),
            diagnostics = violations (hard_block @ secret_access) cmd\<rparr>)"

text \<open>
  Modelled from the spec: every rule of the catalogue of section 4.1 names a command
  (deletion, formatting, shutdown, privilege escalation, permission change, download
  piped to an interpreter, viewing a secret), so no pattern of a rule table accepts a
  text made of whitespace only. The table itself is missing.
\<close>

definition accepts_no_blank :: "rule list \<Rightarrow> bool" where
  "accepts_no_blank rules \<longleftrightarrow> (\<forall>r \<in> set rules. \<forall>s. pattern r s \<longrightarrow> strip s \<noteq> [])"

text \<open>
  A rule table used as a concrete input: two hard-block rules with literal patterns,
  and no secret-access rule.
\<close>

definition is_literal :: "string \<Rightarrow> pattern" where
  "is_literal t = (\<lambda>s. s = t)"

definition sudo_rule :: rule where
  "sudo_rule = \<lparr>pattern = is_literal ''sudo '', message = ''privilege escalation''\<rparr>"

definition sample_hard_block :: "rule list" where
  "sample_hard_block =
     [\<lparr>pattern = is_literal ''rm -rf /'', message = ''recursive forced deletion at the root''\<rparr>,
      sudo_rule]"

section \<open>Lemmas about the pipeline\<close>

lemma bind_return [simp]: "bind_exec (return_exec x) f = f x"
  by (simp add: bind_exec_def return_exec_def)

lemma bind_assoc: "bind_exec (bind_exec m f) g = bind_exec m (\<lambda>x. bind_exec (f x) g)"
  by (auto simp: bind_exec_def split: prod.splits sum.splits)

lemma run_stages_append:
  "bind_exec (run_stages e xs errors) (\<lambda>errors'. run_stages e ys errors')
     = run_stages e (xs @ ys) errors"
  by (induction xs arbitrary: errors) (auto simp: bind_assoc)

lemma lint_stage_plan: "lint_stage e pm errors = run_stages e (lint_plan e pm) errors"
  by (simp add: lint_stage_def lint_plan_def)

lemma typecheck_stage_plan: "typecheck_stage e pm errors = run_stages e (typecheck_plan e pm) errors"
  by (simp add: typecheck_stage_def typecheck_plan_def)

lemma test_stage_plan: "test_stage e pm changed errors = run_stages e (test_plan e pm changed) errors"
  by (simp add: test_stage_def test_plan_def)

lemma stages_plan:
  "bind_exec (lint_stage e (hd (detect_pm e)) [])
     (\<lambda>errors. bind_exec (typecheck_stage e (hd (detect_pm e)) errors)
        (\<lambda>errors. bind_exec (test_stage e (hd (detect_pm e)) changed errors) f))
   = bind_exec (run_stages e (plan e changed) []) f"
  unfolding lint_stage_plan typecheck_stage_plan test_stage_plan plan_def
  by (simp only: bind_assoc [symmetric] run_stages_append append_assoc)


lemma record_failure_append: "record_failure l r errors = errors @ record_failure l r []"
  by (simp add: record_failure_def)

lemma run_stages_ok:
  "\<forall>st \<in> set sts. returns e (fst st) 900 \<Longrightarrow>
   run_stages e sts errors s =
     (Inr (errors @ concat (map (failure_of e) sts)), s\<lparr>invoked := invoked s @ at900 sts\<rparr>)"
proof (induction sts arbitrary: errors s)
  case Nil
  then show ?case by (simp add: return_exec_def at900_def)
next
  case (Cons st sts)
  obtain c l where st: "st = (c, l)" by (cases st)
  from Cons.prems obtain r where r: "subprocess_run e c 900 = Inr r"
    by (auto simp: st returns_def)
  from Cons.prems have rest: "\<forall>st \<in> set sts. returns e (fst st) 900" by simp
  show ?case
    using Cons.IH [OF rest] r record_failure_append [of l r errors]
    by (simp add: st bind_exec_def run_def failure_of_def at900_def)
qed

lemma run_stages_raise:
  "\<forall>st \<in> set pre. returns e (fst st) 900 \<Longrightarrow> subprocess_run e c 900 = Inl x \<Longrightarrow>
   run_stages e (pre @ (c, l) # post) errors s =
     (Inl x, s\<lparr>invoked := invoked s @ at900 (pre @ [(c, l)])\<rparr>)"
proof (induction pre arbitrary: errors s)
  case Nil
  then show ?case by (simp add: bind_exec_def run_def at900_def)
next
  case (Cons st pre)
  obtain c' l' where st: "st = (c', l')" by (cases st)
  from Cons.prems obtain r where r: "subprocess_run e c' 900 = Inr r"
    by (auto simp: st returns_def)
  from Cons.prems have rest: "\<forall>st \<in> set pre. returns e (fst st) 900" by simp
  show ?case
    using Cons.IH [OF rest Cons.prems(2)] r
    by (simp add: st bind_exec_def run_def at900_def)
qed

lemma first_raise:
  "(\<forall>st \<in> set sts. returns e (fst st) 900) \<or>
   (\<exists>pre c l post x. sts = pre @ (c, l) # post \<and> (\<forall>st \<in> set pre. returns e (fst st) 900) \<and>
      subprocess_run e c 900 = Inl x)"
proof (induction sts)
  case Nil
  then show ?case by simp
next
  case (Cons st sts)
  obtain c l where st: "st = (c, l)" by (cases st)
  show ?case
  proof (cases "subprocess_run e c 900")
    case (Inl x)
    then have "st # sts = [] @ (c, l) # sts \<and> (\<forall>st \<in> set []. returns e (fst st) 900) \<and>
      subprocess_run e c 900 = Inl x" by (simp add: st)
    then show ?thesis by blast
  next
    case (Inr r)
    then have ret: "returns e (fst st) 900" by (simp add: st returns_def)
    from Cons.IH show ?thesis
    proof
      assume "\<forall>st \<in> set sts. returns e (fst st) 900"
      with ret show ?thesis by simp
    next
      assume "\<exists>pre c l post x. sts = pre @ (c, l) # post \<and>
        (\<forall>st \<in> set pre. returns e (fst st) 900) \<and> subprocess_run e c 900 = Inl x"
      then obtain pre c' l' post x where
        "sts = pre @ (c', l') # post" "\<forall>st \<in> set pre. returns e (fst st) 900"
        "subprocess_run e c' 900 = Inl x" by blast
      with ret have "st # sts = (st # pre) @ (c', l') # post \<and>
        (\<forall>st \<in> set (st # pre). returns e (fst st) 900) \<and> subprocess_run e c' 900 = Inl x"
        by simp
      then show ?thesis by blast
    qed
  qed
qed

lemma print_errors_apply:
  "print_errors errors s =
     (Inr (), s\<lparr>stderr_text := stderr_text s @ concat (map (\<lambda>x. ''- '' @ x @ ''\<newline>'') errors)\<rparr>)"
  by (induction errors arbitrary: s) (simp_all add: return_exec_def bind_exec_def print_stderr_def)

lemma aggregate_apply:
  "aggregate errors s =
     (Inr (if errors = [] then 0 else 2), s\<lparr>stderr_text := stderr_text s @ report errors\<rparr>)"
  by (simp add: aggregate_def report_def return_exec_def bind_exec_def print_stderr_def
      print_errors_apply)


lemma main_unfold:
  "main e s =
     (if \<not> path_exists e ''package.json'' \<or> \<not> path_exists e ''.git'' then (Inr 0, s)
      else case subprocess_run e [''git'', ''diff'', ''--name-only''] 30 of
        Inl x \<Rightarrow> (Inl x, s\<lparr>invoked := invoked s @ [([''git'', ''diff'', ''--name-only''], 30)]\<rparr>)
      | Inr d \<Rightarrow>
          if changed_files (stdout d) = []
          then (Inr 0, s\<lparr>invoked := invoked s @ [([''git'', ''diff'', ''--name-only''], 30)]\<rparr>)
          else bind_exec (run_stages e (plan e (changed_files (stdout d))) []) aggregate
                 (s\<lparr>invoked := invoked s @ [([''git'', ''diff'', ''--name-only''], 30)]\<rparr>))"
  unfolding main_def Let_def stages_plan
  by (simp add: return_exec_def bind_exec_def run_def split: sum.splits)

lemma script_cases [case_names not_applicable diff_raises no_changes decided aborted]:
  obtains
    (not_applicable) "\<not> path_exists e ''package.json'' \<or> \<not> path_exists e ''.git''"
      "script e = (Inr 0, initial)"
  | (diff_raises) x where "path_exists e ''package.json''" "path_exists e ''.git''"
      "subprocess_run e [''git'', ''diff'', ''--name-only''] 30 = Inl x"
      "script e = (Inl x, \<lparr>invoked = [([''git'', ''diff'', ''--name-only''], 30)], stderr_text = []\<rparr>)"
  | (no_changes) d where "path_exists e ''package.json''" "path_exists e ''.git''"
      "subprocess_run e [''git'', ''diff'', ''--name-only''] 30 = Inr d"
      "changed_files (stdout d) = []"
      "script e = (Inr 0, \<lparr>invoked = [([''git'', ''diff'', ''--name-only''], 30)], stderr_text = []\<rparr>)"
  | (decided) d where "path_exists e ''package.json''" "path_exists e ''.git''"
      "subprocess_run e [''git'', ''diff'', ''--name-only''] 30 = Inr d"
      "changed_files (stdout d) \<noteq> []"
      "\<forall>st \<in> set (plan e (changed_files (stdout d))). returns e (fst st) 900"
      "script e =
         (Inr (if concat (map (failure_of e) (plan e (changed_files (stdout d)))) = [] then 0 else 2),
          \<lparr>invoked = ([''git'', ''diff'', ''--name-only''], 30) # at900 (plan e (changed_files (stdout d))),
           stderr_text = report (concat (map (failure_of e) (plan e (changed_files (stdout d)))))\<rparr>)"
  | (aborted) d pre c l post x where "path_exists e ''package.json''" "path_exists e ''.git''"
      "subprocess_run e [''git'', ''diff'', ''--name-only''] 30 = Inr d"
      "changed_files (stdout d) \<noteq> []"
      "plan e (changed_files (stdout d)) = pre @ (c, l) # post"
      "\<forall>st \<in> set pre. returns e (fst st) 900"
      "subprocess_run e c 900 = Inl x"
      "script e =
         (Inl x, \<lparr>invoked = ([''git'', ''diff'', ''--name-only''], 30) # at900 (pre @ [(c, l)]),
           stderr_text = []\<rparr>)"
proof (cases "\<not> path_exists e ''package.json'' \<or> \<not> path_exists e ''.git''")
  case True
  then have "script e = (Inr 0, initial)" by (simp add: script_def main_unfold)
  with True show ?thesis by (rule not_applicable)
next
  case False
  then have pkg: "path_exists e ''package.json''" and git: "path_exists e ''.git''" by simp_all
  show ?thesis
  proof (cases "subprocess_run e [''git'', ''diff'', ''--name-only''] 30")
    case (Inl x)
    with pkg git have "script e =
      (Inl x, \<lparr>invoked = [([''git'', ''diff'', ''--name-only''], 30)], stderr_text = []\<rparr>)"
      by (simp add: script_def main_unfold initial_def)
    with pkg git Inl show ?thesis by (rule diff_raises)
  next
    case (Inr d)
    show ?thesis
    proof (cases "changed_files (stdout d) = []")
      case True
      with pkg git Inr have "script e =
        (Inr 0, \<lparr>invoked = [([''git'', ''diff'', ''--name-only''], 30)], stderr_text = []\<rparr>)"
        by (simp add: script_def main_unfold initial_def)
      with pkg git Inr True show ?thesis by (rule no_changes)
    next
      case False
      let ?p = "plan e (changed_files (stdout d))"
      let ?s = "\<lparr>invoked = [([''git'', ''diff'', ''--name-only''], 30)], stderr_text = []\<rparr>"
      from pkg git Inr False
      have scr: "script e = bind_exec (run_stages e ?p []) aggregate ?s"
        by (simp add: script_def main_unfold initial_def)
      from first_raise [of ?p e] show ?thesis
      proof
        assume ok: "\<forall>st \<in> set ?p. returns e (fst st) 900"
        have "script e =
         (Inr (if concat (map (failure_of e) ?p) = [] then 0 else 2),
          \<lparr>invoked = ([''git'', ''diff'', ''--name-only''], 30) # at900 ?p,
           stderr_text = report (concat (map (failure_of e) ?p))\<rparr>)"
          unfolding scr by (simp add: bind_exec_def run_stages_ok [OF ok] aggregate_apply)
        with pkg git Inr False ok show ?thesis by (rule decided)
      next
        assume "\<exists>pre c l post x. ?p = pre @ (c, l) # post \<and>
          (\<forall>st \<in> set pre. returns e (fst st) 900) \<and> subprocess_run e c 900 = Inl x"
        then obtain pre c l post x where p: "?p = pre @ (c, l) # post"
          and ok: "\<forall>st \<in> set pre. returns e (fst st) 900"
          and x: "subprocess_run e c 900 = Inl x" by blast
        have "script e =
         (Inl x, \<lparr>invoked = ([''git'', ''diff'', ''--name-only''], 30) # at900 (pre @ [(c, l)]),
           stderr_text = []\<rparr>)"
          unfolding scr p by (simp add: bind_exec_def run_stages_raise [OF ok x])
        with pkg git Inr False p ok x show ?thesis by (rule aborted)
      qed
    qed
  qed
qed


lemma at900_mem: "(cmd, t) \<in> set (at900 sts) \<longleftrightarrow> t = 900 \<and> (\<exists>l. (cmd, l) \<in> set sts)"
  by (force simp: at900_def)

lemma returns_not_raise: "returns e cmd t \<Longrightarrow> subprocess_run e cmd t \<noteq> Inl x"
  by (auto simp: returns_def)

lemma at900_snoc: "at900 (pre @ [(c, l)]) = at900 pre @ [(c, 900)]"
  by (simp add: at900_def)


















lemma strip_Nil_iff: "strip s = [] \<longleftrightarrow> (\<forall>c \<in> set s. isspace c)"
proof
  assume "strip s = []"
  then have d: "\<forall>c \<in> set (dropWhile isspace s). isspace c" by (simp add: strip_def)
  have "dropWhile isspace s = []"
  proof (rule ccontr)
    assume n: "dropWhile isspace s \<noteq> []"
    then have "\<not> isspace (hd (dropWhile isspace s))" by (rule hd_dropWhile)
    moreover from n have "hd (dropWhile isspace s) \<in> set (dropWhile isspace s)" by simp
    ultimately show False using d by blast
  qed
  then show "\<forall>c \<in> set s. isspace c" by simp
next
  assume "\<forall>c \<in> set s. isspace c"
  then have dw: "dropWhile isspace s = []" by simp
  show "strip s = []" unfolding strip_def dw by simp
qed

lemma isspace_lower: "isspace (lower_char c) = isspace c"
  by (auto simp: lower_char_def isspace_def split: if_splits)

lemma strip_lower: "strip (lower s) = [] \<longleftrightarrow> strip s = []"
  by (simp add: strip_Nil_iff lower_def isspace_lower)

lemma blank_sublist: "strip t = [] \<Longrightarrow> sublist s t \<Longrightarrow> strip s = []"
  by (auto simp: strip_Nil_iff dest: set_mono_sublist)


section \<open>Package manager\<close>

text \<open>
  Claim C8. \<open>detect_pm\<close> looks for the lockfiles in a fixed order:
  \<open>pnpm-lock.yaml\<close> selects pnpm, else \<open>yarn.lock\<close> selects yarn, else
  \<open>bun.lockb\<close> selects bun, and with none of them npm is assumed. Exactly one
  manager is selected for every project directory, and it is one of these four.
\<close>

theorem detect_pm_precedence:
  "(path_exists e ''pnpm-lock.yaml'' \<longrightarrow> detect_pm e = [''pnpm'']) \<and>
   (\<not> path_exists e ''pnpm-lock.yaml'' \<and> path_exists e ''yarn.lock''
      \<longrightarrow> detect_pm e = [''yarn'']) \<and>
   (\<not> path_exists e ''pnpm-lock.yaml'' \<and> \<not> path_exists e ''yarn.lock'' \<and>
    path_exists e ''bun.lockb'' \<longrightarrow> detect_pm e = [''bun'']) \<and>
   (\<not> path_exists e ''pnpm-lock.yaml'' \<and> \<not> path_exists e ''yarn.lock'' \<and>
    \<not> path_exists e ''bun.lockb'' \<longrightarrow> detect_pm e = [''npm'']) \<and>
   length (detect_pm e) = 1 \<and>
   hd (detect_pm e) \<in> set [''pnpm'', ''yarn'', ''bun'', ''npm'']"
  by (simp add: detect_pm_def)

theorem detect_pm_precedence_witness:
  "\<not> path_exists yarn_and_bun ''pnpm-lock.yaml'' \<and> path_exists yarn_and_bun ''yarn.lock'' \<and>
   detect_pm yarn_and_bun = [''yarn'']"
  using detect_pm_precedence [of yarn_and_bun] by (simp add: yarn_and_bun_def project_def)

section \<open>Subprocesses that time out or cannot be started\<close>

text \<open>
  Claim C1 says that a stage whose subprocess exceeds its timeout or cannot be started
  is recorded as a failure and that the run ends in a block decision. The script has
  no handler around \<open>run\<close>: with a lint script that times out, the exception leaves
  \<open>main\<close>, nothing is printed, no exit status is chosen and typecheck never starts.
\<close>

theorem lint_timeout_is_not_recorded:
  "script lint_times_out =
     (Inl TimeoutExpired,
      \<lparr>invoked = [([''git'', ''diff'', ''--name-only''], 30), ([''npm'', ''run'', ''lint''], 900)],
       stderr_text = []\<rparr>)"
  by code_simp

text \<open>
  Claim C1, amended. Every stage subprocess is started with a timeout of 900 seconds.
  When a stage subprocess that the run started times out or cannot be started, the
  exception propagates out of the script uncaught: it is the outcome of the run, it was
  the last subprocess started, and nothing has been printed.
\<close>

theorem stage_exception_propagates:
  assumes "(cmd, t) \<in> set (invoked (snd (script e)))"
    and "cmd \<noteq> [''git'', ''diff'', ''--name-only'']"
    and "subprocess_run e cmd t = Inl x"
  shows "t = 900 \<and> fst (script e) = Inl x \<and> stderr_text (snd (script e)) = [] \<and>
    last (invoked (snd (script e))) = (cmd, t)"
proof (cases e rule: script_cases)
  case not_applicable
  with assms show ?thesis by (simp add: initial_def)
next
  case (diff_raises y)
  with assms show ?thesis by simp
next
  case (no_changes d)
  with assms show ?thesis by simp
next
  case (decided d)
  with assms(1,2) have "t = 900" and "\<exists>l. (cmd, l) \<in> set (plan e (changed_files (stdout d)))"
    by (simp_all add: at900_mem)
  with decided(5) have "returns e cmd t" by force
  with assms(3) show ?thesis by (simp add: returns_def)
next
  case (aborted d pre c l post y)
  from aborted(8) assms(1,2) have t: "t = 900"
    and mem: "(\<exists>l'. (cmd, l') \<in> set pre) \<or> cmd = c"
    by (auto simp: at900_mem)
  have "cmd = c"
  proof (rule ccontr)
    assume "cmd \<noteq> c"
    with mem obtain l' where "(cmd, l') \<in> set pre" by blast
    with aborted(6) have "returns e cmd 900" by force
    with assms(3) t show False by (simp add: returns_def)
  qed
  with aborted(7) assms(3) t have "x = y" by simp
  with aborted(8) t \<open>cmd = c\<close> show ?thesis by (simp add: at900_snoc)
qed

theorem stage_exception_propagates_witness:
  "fst (script lint_times_out) = Inl TimeoutExpired \<and>
   stderr_text (snd (script lint_times_out)) = [] \<and>
   last (invoked (snd (script lint_times_out))) = ([''npm'', ''run'', ''lint''], 900)"
proof -
  have a: "([''npm'', ''run'', ''lint''], 900) \<in> set (invoked (snd (script lint_times_out)))"
    by code_simp
  have b: "[''npm'', ''run'', ''lint''] \<noteq> [''git'', ''diff'', ''--name-only'']" by simp
  have c: "subprocess_run lint_times_out [''npm'', ''run'', ''lint''] 900 = Inl TimeoutExpired"
    by code_simp
  from stage_exception_propagates [OF a b c] show ?thesis by simp
qed

text \<open>
  Claim C2 says that every internal error degrades to an allow decision and that no
  exception leaves the script. When \<open>git\<close> cannot be started, the exception of the
  first \<open>run\<close> call leaves \<open>main\<close>, and \<open>raise SystemExit(main())\<close> never gets a status.
\<close>

theorem git_failure_is_uncaught:
  "script nothing_starts =
     (Inl OSError, \<lparr>invoked = [([''git'', ''diff'', ''--name-only''], 30)], stderr_text = []\<rparr>)"
  by code_simp

text \<open>
  Claim C2, amended. No exception of a subprocess call is turned into an allow
  decision: \<open>main\<close> has no handler around \<open>run\<close> and the entry point is a bare
  \<open>raise SystemExit(main())\<close>. Whenever a subprocess that the script started,
  \<open>git diff\<close> or a stage, raised an exception (it timed out, could not be started, or
  its output could not be decoded), that exception leaves the script uncaught, and the
  script has printed no diagnostic. Whenever the script does end with an exit status,
  the status is 0 or 2.
\<close>

theorem subprocess_exception_is_uncaught:
  "((\<exists>(cmd, t) \<in> set (invoked (snd (script e))). subprocess_run e cmd t = Inl x) \<longrightarrow>
      fst (script e) = Inl x \<and> stderr_text (snd (script e)) = []) \<and>
   (\<forall>code. fst (script e) = Inr code \<longrightarrow> code = 0 \<or> code = 2)"
proof (cases e rule: script_cases)
  case not_applicable
  then show ?thesis by (simp add: initial_def)
next
  case (diff_raises y)
  then show ?thesis by auto
next
  case (no_changes d)
  then show ?thesis by simp
next
  case (decided d)
  have "\<not> (\<exists>(cmd, t) \<in> set (invoked (snd (script e))). subprocess_run e cmd t = Inl x)"
  proof
    assume "\<exists>(cmd, t) \<in> set (invoked (snd (script e))). subprocess_run e cmd t = Inl x"
    then obtain cmd t where m: "(cmd, t) \<in> set (invoked (snd (script e)))"
      and r: "subprocess_run e cmd t = Inl x" by blast
    from m decided(3,6) r have "t = 900" and "\<exists>l. (cmd, l) \<in> set (plan e (changed_files (stdout d)))"
      by (auto simp: at900_mem)
    with decided(5) have "returns e cmd t" by force
    with r show False by (simp add: returns_def)
  qed
  with decided(6) show ?thesis by simp
next
  case (aborted d pre c l post y)
  have "x = y"
    if "\<exists>(cmd, t) \<in> set (invoked (snd (script e))). subprocess_run e cmd t = Inl x"
  proof -
    from that obtain cmd t where m: "(cmd, t) \<in> set (invoked (snd (script e)))"
      and r: "subprocess_run e cmd t = Inl x" by blast
    from m aborted(3,8) r have t: "t = 900" and mem: "(\<exists>l'. (cmd, l') \<in> set pre) \<or> cmd = c"
      by (auto simp: at900_mem)
    have "cmd = c"
    proof (rule ccontr)
      assume "cmd \<noteq> c"
      with mem obtain l' where "(cmd, l') \<in> set pre" by blast
      with aborted(6) have "returns e cmd 900" by force
      with r t show False by (simp add: returns_def)
    qed
    with aborted(7) r t show "x = y" by simp
  qed
  with aborted(8) show ?thesis by auto
qed

theorem subprocess_exception_is_uncaught_witness:
  "(\<exists>(cmd, t) \<in> set (invoked (snd (script tsc_times_out))).
      subprocess_run tsc_times_out cmd t = Inl TimeoutExpired) \<and>
   fst (script tsc_times_out) = Inl TimeoutExpired \<and>
   stderr_text (snd (script tsc_times_out)) = []"
proof -
  have "([''npx'', ''tsc'', ''--noEmit''], 900) \<in> set (invoked (snd (script tsc_times_out)))"
    by code_simp
  moreover have "subprocess_run tsc_times_out [''npx'', ''tsc'', ''--noEmit''] 900
    = Inl TimeoutExpired" by code_simp
  ultimately have h: "\<exists>(cmd, t) \<in> set (invoked (snd (script tsc_times_out))).
      subprocess_run tsc_times_out cmd t = Inl TimeoutExpired" by blast
  with subprocess_exception_is_uncaught [of tsc_times_out TimeoutExpired] show ?thesis
    by blast
qed

section \<open>Applicability\<close>




section \<open>Absent tooling\<close>

text \<open>
  Claim C3 says that a stage whose tool is neither declared nor installed is skipped,
  for typecheck as for lint. The typecheck stage has no such test: with no typecheck
  script and no local type checker it still runs \<open>npx tsc --noEmit\<close>, and the nonzero
  status is recorded as a failure that blocks.
\<close>

theorem typecheck_runs_without_tooling:
  "\<not> has_script no_typechecker ''typecheck'' \<and>
   \<not> path_exists no_typechecker ''node_modules/.bin/tsc'' \<and>
   script no_typechecker =
     (Inr 2,
      \<lparr>invoked = [([''git'', ''diff'', ''--name-only''], 30), ([''npx'', ''tsc'', ''--noEmit''], 900)],
       stderr_text = ''QUALITY GATE BLOCKED STOP:\<newline>- typecheck failed\<newline>- tsc: not found\<newline>\<newline>Fix the failures, then continue.\<newline>''\<rparr>)"
  by code_simp

text \<open>
  Claim C3, amended. The lint stage is skipped, with no failure recorded, when no lint
  script is declared and \<open>node_modules/.bin/eslint\<close> does not exist; the test stage is
  skipped, with no failure recorded, when no test script is declared. The typecheck
  stage is never skipped: without a typecheck script it starts \<open>npx tsc --noEmit\<close>,
  and a nonzero exit status of it is recorded under the label \<open>typecheck failed\<close>.
\<close>

theorem absent_tooling:
  "(\<not> has_script e ''lint'' \<and> \<not> path_exists e ''node_modules/.bin/eslint'' \<longrightarrow>
      lint_stage e pm errors s = (Inr errors, s)) \<and>
   (\<not> has_script e ''test'' \<longrightarrow> test_stage e pm changed errors s = (Inr errors, s)) \<and>
   (\<not> has_script e ''typecheck'' \<longrightarrow>
      invoked (snd (typecheck_stage e pm errors s))
        = invoked s @ [([''npx'', ''tsc'', ''--noEmit''], 900)] \<and>
      (\<forall>r. subprocess_run e [''npx'', ''tsc'', ''--noEmit''] 900 = Inr r \<and> returncode r \<noteq> 0 \<longrightarrow>
         (\<exists>excerpt. fst (typecheck_stage e pm errors s)
            = Inr (errors @ ''typecheck failed'' # excerpt))))"
  by (auto simp: lint_stage_def test_stage_def typecheck_stage_def return_exec_def bind_exec_def
      run_def record_failure_def split: sum.splits)

theorem absent_tooling_witness:
  "\<not> has_script no_typechecker ''lint'' \<and>
   \<not> path_exists no_typechecker ''node_modules/.bin/eslint'' \<and>
   lint_stage no_typechecker ''npm'' [] initial = (Inr [], initial) \<and>
   invoked (snd (typecheck_stage no_typechecker ''npm'' [] initial))
     = [([''npx'', ''tsc'', ''--noEmit''], 900)]"
proof -
  have a: "\<not> has_script no_typechecker ''lint''" by code_simp
  have b: "\<not> path_exists no_typechecker ''node_modules/.bin/eslint''" by code_simp
  have c: "\<not> has_script no_typechecker ''typecheck''" by code_simp
  have d: "invoked initial = []" by (simp add: initial_def)
  from absent_tooling [of no_typechecker "''npm''" "[]" initial] a b c d show ?thesis by simp
qed

section \<open>An unreadable manifest\<close>

text \<open>
  Claim C10. When \<open>package.json\<close> exists and reading or parsing it raises,
  \<open>has_script\<close> catches the exception and answers \<open>False\<close> for every script name.
  The stages then behave as for a project that declares no script: lint falls back to
  \<open>npx eslint .\<close> when eslint is installed and is skipped otherwise, typecheck falls
  back to \<open>npx tsc --noEmit\<close>, and the test stage is skipped.
\<close>

theorem unreadable_manifest:
  assumes "path_exists e ''package.json''" and "package_json e = Inl x"
  shows "\<not> has_script e name \<and>
    lint_stage e pm errors =
      (if path_exists e ''node_modules/.bin/eslint'' then
         bind_exec (run e [''npx'', ''eslint'', ''.''] 900)
           (\<lambda>r. return_exec (record_failure ''eslint failed'' r errors))
       else return_exec errors) \<and>
    typecheck_stage e pm errors =
      bind_exec (run e [''npx'', ''tsc'', ''--noEmit''] 900)
        (\<lambda>r. return_exec (record_failure ''typecheck failed'' r errors)) \<and>
    test_stage e pm changed errors = return_exec errors"
proof -
  from assms have "\<And>n. \<not> has_script e n" by (simp add: has_script_def has_script_try_def)
  then show ?thesis by (simp add: lint_stage_def typecheck_stage_def test_stage_def)
qed

theorem unreadable_manifest_witness:
  "path_exists broken_manifest ''package.json'' \<and>
   package_json broken_manifest = Inl JSONDecodeError \<and>
   \<not> has_script broken_manifest ''lint'' \<and>
   typecheck_stage broken_manifest ''npm'' [] =
     bind_exec (run broken_manifest [''npx'', ''tsc'', ''--noEmit''] 900)
       (\<lambda>r. return_exec (record_failure ''typecheck failed'' r []))"
proof -
  have a: "path_exists broken_manifest ''package.json''" by code_simp
  have b: "package_json broken_manifest = Inl JSONDecodeError"
    by (simp add: broken_manifest_def project_def)
  from unreadable_manifest [OF a b, of "''lint''" "''npm''" "[]"] a b show ?thesis by simp
qed

section \<open>The gate of the test stage\<close>




section \<open>The decision\<close>




section \<open>The report\<close>




section \<open>Command Guard: blocking, allowing, case\<close>

text \<open>
  Claim C9, against the guard as the specification describes it. For every rule table
  whose patterns accept no blank text: a command that matches a hard-block rule is
  blocked and the message of that rule is among the diagnostics; a command that
  matches no rule is allowed with empty diagnostics; and two commands that differ only
  in the case of their letters, such as \<open>SUDO ls\<close> and \<open>sudo ls\<close>, get the same
  decision.
\<close>

theorem guard_decision:
  assumes "accepts_no_blank (hard_block @ secret_access)"
  shows "(r \<in> set hard_block \<and> matches (pattern r) cmd \<longrightarrow>
            \<not> allowed (command_guard hard_block secret_access cmd) \<and>
            message r \<in> set (diagnostics (command_guard hard_block secret_access cmd))) \<and>
    ((\<forall>r \<in> set (hard_block @ secret_access). \<not> matches (pattern r) cmd) \<longrightarrow>
       command_guard hard_block secret_access cmd = \<lparr>allowed = True, diagnostics = []\<rparr>) \<and>
    (lower cmd' = lower cmd \<longrightarrow>
       command_guard hard_block secret_access cmd' = command_guard hard_block secret_access cmd)"
proof -
  have nonblank: "strip cmd \<noteq> []" if r: "r \<in> set hard_block" and m: "matches (pattern r) cmd"
  proof
    assume b: "strip cmd = []"
    from m obtain s where s: "sublist s (lower cmd)" "pattern r s"
      by (auto simp: matches_def list_ex_iff)
    from b have "strip (lower cmd) = []" by (simp add: strip_lower)
    then have "strip s = []" using s(1) by (rule blank_sublist)
    with assms r s(2) show False by (auto simp: accepts_no_blank_def)
  qed
  have a: "\<not> allowed (command_guard hard_block secret_access cmd) \<and>
      message r \<in> set (diagnostics (command_guard hard_block secret_access cmd))"
    if "r \<in> set hard_block" "matches (pattern r) cmd"
    using that nonblank [OF that]
    by (auto simp: command_guard_def violations_def filter_empty_conv)
  have b: "command_guard hard_block secret_access cmd = \<lparr>allowed = True, diagnostics = []\<rparr>"
    if "\<forall>r \<in> set (hard_block @ secret_access). \<not> matches (pattern r) cmd"
    using that by (auto simp: command_guard_def violations_def filter_empty_conv)
  have c: "command_guard hard_block secret_access cmd' = command_guard hard_block secret_access cmd"
    if l: "lower cmd' = lower cmd"
  proof -
    from l have "strip cmd' = [] \<longleftrightarrow> strip cmd = []" by (metis strip_lower)
    moreover from l have "\<And>p. matches p cmd' = matches p cmd" by (simp add: matches_def)
    ultimately show ?thesis by (simp add: command_guard_def violations_def)
  qed
  from a b c show ?thesis by blast
qed

theorem guard_decision_witness:
  "accepts_no_blank (sample_hard_block @ []) \<and>
   sudo_rule \<in> set sample_hard_block \<and> matches (pattern sudo_rule) ''sudo ls'' \<and>
   \<not> allowed (command_guard sample_hard_block [] ''sudo ls'') \<and>
   message sudo_rule \<in> set (diagnostics (command_guard sample_hard_block [] ''sudo ls'')) \<and>
   lower ''SUDO ls'' = lower ''sudo ls'' \<and>
   command_guard sample_hard_block [] ''SUDO ls'' = command_guard sample_hard_block [] ''sudo ls''"
proof -
  have s1: "strip ''rm -rf /'' \<noteq> []" by code_simp
  have s2: "strip ''sudo '' \<noteq> []" by code_simp
  have wf: "accepts_no_blank (sample_hard_block @ [])"
    using s1 s2
    by (simp add: accepts_no_blank_def sample_hard_block_def sudo_rule_def is_literal_def)
  have r: "sudo_rule \<in> set sample_hard_block" by (simp add: sample_hard_block_def)
  have m: "matches (pattern sudo_rule) ''sudo ls''" by code_simp
  have l: "lower ''SUDO ls'' = lower ''sudo ls''" by code_simp
  from guard_decision [OF wf, of sudo_rule "''sudo ls''" "''SUDO ls''"] wf r m l
  show ?thesis by simp
qed
end
